theory Spec2Isabelle
  imports Main
begin

section \<open>Checked calls (include/checkcall.hpp, namespace cwrap)\<close>

subsection \<open>Exceptions, ambient process state, observable events\<close>

text \<open>
  The C++ exceptions that the library and its tests name. A \<open>throw\<close> is the value
  \<open>Inl e\<close> (or \<open>Some e\<close> where the function returns \<open>void\<close>).
\<close>

datatype exn = runtime_error string | bad_function_call

text \<open>
  The process-wide state that the policies read and write is \<open>errno\<close>. The record is
  extensible: whatever else a wrapped C function changes lives in the extension.
\<close>

record proc =
  errno :: int

text \<open>
  \<open>CALL_CHECKED\<close> makes three kinds of calls: to the policy's \<open>preCall\<close> hook, to
  the wrapped callable, and to the error policy's \<open>handleError\<close>. Each call site of the
  source appends one event to a log, so that "exactly once" and "before" are properties
  of the log. Callables and policies never see the log.
\<close>

datatype 'rv event = PreCall | Call | HandleError 'rv

fun is_HandleError :: "'rv event \<Rightarrow> bool" where
  "is_HandleError (HandleError rv) = True"
| "is_HandleError e = False"

fun is_PreCall :: "'rv event \<Rightarrow> bool" where
  "is_PreCall PreCall = True"
| "is_PreCall e = False"

fun is_Call :: "'rv event \<Rightarrow> bool" where
  "is_Call Call = True"
| "is_Call e = False"

type_synonym ('rv, 'x) st = "'x proc_scheme \<times> 'rv event list"

text \<open>
  A wrapped callable takes its arguments (a tuple for the variadic pack) and the process
  state; it returns a value or throws, and leaves a new process state.
\<close>

type_synonym ('a, 'rv, 'x) callable = "'a \<Rightarrow> 'x proc_scheme \<Rightarrow> (exn + 'rv) \<times> 'x proc_scheme"

subsection \<open>Policies\<close>

text \<open>
  A return-check policy is a class with a static \<open>returnValueIsOk\<close> and, optionally, a
  static \<open>preCall\<close>. \<open>HasPreCall\<close> detects the latter at compile time; here the hook is
  an optional field. The template parameter \<open>Rv\<close> is the type parameter \<open>'rv\<close>, so the
  \<open>static_assert\<close>s on \<open>Rv\<close> are the types of the definitions below. The predicate
  reads the return value and the process state; the hook changes the process state.
  Neither throws: none of the library's does.
\<close>

record ('rv, 'x) return_check_policy =
  returnValueIsOk :: "'rv \<Rightarrow> 'x proc_scheme \<Rightarrow> bool"
  preCall :: "('x proc_scheme \<Rightarrow> 'x proc_scheme) option"

text \<open>
  An error policy is a class with a static \<open>void handleError(const Rv&)\<close>. Nothing in its
  signature says that it throws: \<open>None\<close> is a normal return.
\<close>

record ('rv, 'x) error_policy =
  handleError :: "'rv \<Rightarrow> 'x proc_scheme \<Rightarrow> exn option \<times> 'x proc_scheme"

text \<open>Pointers, for \<open>IsNotNullptrReturnCheckPolicy\<close>.\<close>

datatype pointer = Nullptr | Addr nat

text \<open>
  Decimal rendering of an integer, which is what \<open>boost::format\<close> does with \<open>%d\<close> and
  what \<open>operator<<\<close> does on a stream (boost and the standard library are not part of
  the repository).
\<close>

fun digits :: "nat \<Rightarrow> string" where
  "digits n = (if n < 10 then [''0123456789'' ! n]
               else digits (n div 10) @ [''0123456789'' ! (n mod 10)])"

declare digits.simps [simp del]

definition format_d :: "int \<Rightarrow> string" where
  "format_d i = (if i < 0 then CHR ''-'' # digits (nat (- i)) else digits (nat i))"

text \<open>
  \<open>ReportReturnValueErrorPolicy::handleError\<close>: format the return value into the message
  and throw. The formatter of \<open>Rv\<close> is the parameter \<open>fmt\<close> (\<open>format_d\<close> for integers).
\<close>

definition ReportReturnValueErrorPolicy :: "('rv \<Rightarrow> string) \<Rightarrow> ('rv, 'x) error_policy" where
  "ReportReturnValueErrorPolicy fmt =
     \<lparr>handleError = (\<lambda>rv p. (Some (runtime_error (''Return value indicated error: '' @ fmt rv)), p))\<rparr>"

text \<open>
  \<open>ErrnoErrorPolicy::handleError\<close>: throw \<open>strerror(errno)\<close>. The C library's
  \<open>strerror\<close> is a parameter.
\<close>

definition ErrnoErrorPolicy :: "(int \<Rightarrow> string) \<Rightarrow> ('rv, 'x) error_policy" where
  "ErrnoErrorPolicy strerror =
     \<lparr>handleError = (\<lambda>rv p. (Some (runtime_error (strerror (errno p))), p))\<rparr>"

text \<open>
  The value of a C \<open>int\<close> (32 bits, two's complement) that an integer becomes when it is
  converted to \<open>int\<close> or when an \<open>int\<close> computation leaves the range: the wrap-around,
  written out.
\<close>

definition c_int :: "int \<Rightarrow> int" where
  "c_int i = (i + 2147483648) mod 4294967296 - 2147483648"

text \<open>
  \<open>ErrorCodeErrorPolicy::handleError\<close>: throw \<open>strerror(-rv)\<close>; \<open>Rv\<close> must be integral.
  The negation is computed in the bounded type of \<open>rv\<close> and the result is passed to
  \<open>strerror(int)\<close>, so \<open>strerror\<close> receives \<open>-rv\<close> wrapped into the range of \<open>int\<close>:
  for the least \<open>int\<close> it receives the least \<open>int\<close> again.
\<close>

definition ErrorCodeErrorPolicy :: "(int \<Rightarrow> string) \<Rightarrow> (int, 'x) error_policy" where
  "ErrorCodeErrorPolicy strerror =
     \<lparr>handleError = (\<lambda>rv p. (Some (runtime_error (strerror (c_int (- rv)))), p))\<rparr>"

definition DefaultErrorPolicy :: "(int, 'x) error_policy" where
  "DefaultErrorPolicy = ReportReturnValueErrorPolicy format_d"

definition IsZeroReturnCheckPolicy :: "(int, 'x) return_check_policy" where
  "IsZeroReturnCheckPolicy = \<lparr>returnValueIsOk = (\<lambda>rv p. rv = 0), preCall = None\<rparr>"

definition IsNotNegativeReturnCheckPolicy :: "(int, 'x) return_check_policy" where
  "IsNotNegativeReturnCheckPolicy = \<lparr>returnValueIsOk = (\<lambda>rv p. rv \<ge> 0), preCall = None\<rparr>"

definition IsNotZeroReturnCheckPolicy :: "(int, 'x) return_check_policy" where
  "IsNotZeroReturnCheckPolicy = \<lparr>returnValueIsOk = (\<lambda>rv p. rv \<noteq> 0), preCall = None\<rparr>"

definition IsNotNullptrReturnCheckPolicy :: "(pointer, 'x) return_check_policy" where
  "IsNotNullptrReturnCheckPolicy = \<lparr>returnValueIsOk = (\<lambda>rv p. Nullptr \<noteq> rv), preCall = None\<rparr>"

definition IsErrnoZeroReturnCheckPolicy :: "('rv, 'x) return_check_policy" where
  "IsErrnoZeroReturnCheckPolicy =
     \<lparr>returnValueIsOk = (\<lambda>rv p. errno p = 0), preCall = Some (\<lambda>p. p\<lparr>errno := 0\<rparr>)\<rparr>"

definition DefaultReturnCheckPolicy :: "(int, 'x) return_check_policy" where
  "DefaultReturnCheckPolicy = IsZeroReturnCheckPolicy"

subsection \<open>The checked call\<close>

definition HasPreCall :: "('rv, 'x) return_check_policy \<Rightarrow> bool" where
  "HasPreCall R = (case preCall R of None \<Rightarrow> False | Some h \<Rightarrow> True)"

text \<open>
  \<open>CallIf<cond, T>::call()\<close>: the primary template does nothing, the specialisation for
  \<open>true\<close> calls \<open>T::preCall()\<close>.
\<close>

definition CallIf :: "bool \<Rightarrow> ('rv, 'x) return_check_policy \<Rightarrow> ('rv, 'x) st \<Rightarrow> ('rv, 'x) st" where
  "CallIf cond T s =
     (if cond then (case preCall T of
                      Some h \<Rightarrow> (h (fst s), snd s @ [PreCall])
                    | None \<Rightarrow> s)
      else s)"

text \<open>
  \<open>CALL_CHECKED<R, E>(callable, args...)\<close>, statement by statement: the conditional hook,
  the call, the check, the handler, and \<open>return retVal\<close>, which is reached whenever
  nothing has thrown.
\<close>

definition CALL_CHECKED ::
  "('rv, 'x) return_check_policy \<Rightarrow> ('rv, 'x) error_policy \<Rightarrow> ('a, 'rv, 'x) callable \<Rightarrow> 'a
     \<Rightarrow> ('rv, 'x) st \<Rightarrow> (exn + 'rv) \<times> ('rv, 'x) st" where
  "CALL_CHECKED R E callable args s =
     (let s1 = CallIf (HasPreCall R) R s;
          log1 = snd s1 @ [Call]
      in case callable args (fst s1) of
           (Inl e, p2) \<Rightarrow> (Inl e, (p2, log1))
         | (Inr retVal, p2) \<Rightarrow>
             if \<not> returnValueIsOk R retVal p2 then
               (case handleError E retVal p2 of
                  (Some e, p3) \<Rightarrow> (Inl e, (p3, log1 @ [HandleError retVal]))
                | (None, p3) \<Rightarrow> (Inr retVal, (p3, log1 @ [HandleError retVal])))
             else (Inr retVal, (p2, log1)))"

text \<open>
  \<open>CallGuard<Functor, ReturnCheckPolicy, ErrorPolicy>\<close> stores the functor (its member \<open>_functor\<close>);
  its call operator forwards to \<open>CALL_CHECKED\<close>. \<open>CallCheckContext\<close> forwards likewise.
\<close>

record ('a, 'rv, 'x) CallGuard =
  functor_member :: "('a, 'rv, 'x) callable"

definition CallGuard_call ::
  "('rv, 'x) return_check_policy \<Rightarrow> ('rv, 'x) error_policy \<Rightarrow> ('a, 'rv, 'x) CallGuard \<Rightarrow> 'a
     \<Rightarrow> ('rv, 'x) st \<Rightarrow> (exn + 'rv) \<times> ('rv, 'x) st" where
  "CallGuard_call R E g args s = CALL_CHECKED R E (functor_member g) args s"

definition CallCheckContext_CALL_CHECKED ::
  "('rv, 'x) return_check_policy \<Rightarrow> ('rv, 'x) error_policy \<Rightarrow> ('a, 'rv, 'x) callable \<Rightarrow> 'a
     \<Rightarrow> ('rv, 'x) st \<Rightarrow> (exn + 'rv) \<times> ('rv, 'x) st" where
  "CallCheckContext_CALL_CHECKED R E callable args s = CALL_CHECKED R E callable args s"

section \<open>The earlier interface (include/checkcall.h, namespace cwrap::error)\<close>

text \<open>
  \<open>cwrap::error::DefaultErrorPolicy\<close> builds its message in a \<open>std::ostringstream\<close> that
  is constructed from the prefix with the default open mode, so the put position is at the
  start and \<open>stream << rv\<close> writes over the first characters of the prefix.
\<close>

definition ostringstream_put :: "string \<Rightarrow> string \<Rightarrow> string" where
  "ostringstream_put buf out = out @ drop (length out) buf"

definition error_DefaultErrorPolicy :: "('rv \<Rightarrow> string) \<Rightarrow> ('rv, 'x) error_policy" where
  "error_DefaultErrorPolicy fmt =
     \<lparr>handleError = (\<lambda>rv p.
        (Some (runtime_error (ostringstream_put ''Return value indicated error. Got: '' (fmt rv))), p))\<rparr>"

definition error_ErrnoErrorPolicy :: "(int \<Rightarrow> string) \<Rightarrow> ('rv, 'x) error_policy" where
  "error_ErrnoErrorPolicy strerror =
     \<lparr>handleError = (\<lambda>rv p. (Some (runtime_error (strerror (errno p))), p))\<rparr>"

text \<open>
  \<open>cwrap::error::ReturnCodeErrorPolicy::handleError(int rv)\<close>: the parameter is an
  \<open>int\<close>, so a wider return value is narrowed on the way in, and the negation is an
  \<open>int\<close> negation.
\<close>

definition error_ReturnCodeErrorPolicy :: "(int \<Rightarrow> string) \<Rightarrow> (int, 'x) error_policy" where
  "error_ReturnCodeErrorPolicy strerror =
     \<lparr>handleError = (\<lambda>rv p. (Some (runtime_error (strerror (c_int (- c_int rv)))), p))\<rparr>"

definition error_IsZeroReturnCheckPolicy :: "(int, 'x) return_check_policy" where
  "error_IsZeroReturnCheckPolicy = \<lparr>returnValueIsOk = (\<lambda>rv p. rv = 0), preCall = None\<rparr>"

definition error_IsNotNegativeReturnCheckPolicy :: "(int, 'x) return_check_policy" where
  "error_IsNotNegativeReturnCheckPolicy = \<lparr>returnValueIsOk = (\<lambda>rv p. rv \<ge> 0), preCall = None\<rparr>"

text \<open>
  \<open>cwrap::error::CallGuard::operator()\<close>: call the functor, check, handle, return. The
  body names \<open>returnValueIsOk\<close> and \<open>handleError\<close> only; a \<open>preCall\<close> member of the
  policy class, if there is one, is not mentioned.
\<close>

definition error_CallGuard_call ::
  "('rv, 'x) return_check_policy \<Rightarrow> ('rv, 'x) error_policy \<Rightarrow> ('a, 'rv, 'x) CallGuard \<Rightarrow> 'a
     \<Rightarrow> ('rv, 'x) st \<Rightarrow> (exn + 'rv) \<times> ('rv, 'x) st" where
  "error_CallGuard_call ReturnCheckPolicy ErrorPolicy g args s =
     (let log1 = snd s @ [Call]
      in case functor_member g args (fst s) of
           (Inl e, p2) \<Rightarrow> (Inl e, (p2, log1))
         | (Inr retVal, p2) \<Rightarrow>
             if \<not> returnValueIsOk ReturnCheckPolicy retVal p2 then
               (case handleError ErrorPolicy retVal p2 of
                  (Some e, p3) \<Rightarrow> (Inl e, (p3, log1 @ [HandleError retVal]))
                | (None, p3) \<Rightarrow> (Inr retVal, (p3, log1 @ [HandleError retVal])))
             else (Inr retVal, (p2, log1)))"

section \<open>Callers\<close>

text \<open>
  A caller that invokes one \<open>CallGuard\<close> once per element of a list of argument tuples,
  collecting the results; the first exception ends the sequence.
\<close>

fun CallGuard_calls ::
  "('rv, 'x) return_check_policy \<Rightarrow> ('rv, 'x) error_policy \<Rightarrow> ('a, 'rv, 'x) CallGuard \<Rightarrow> 'a list
     \<Rightarrow> ('rv, 'x) st \<Rightarrow> (exn + 'rv list) \<times> ('rv, 'x) st" where
  "CallGuard_calls R E g [] s = (Inr [], s)"
| "CallGuard_calls R E g (a # as) s =
     (case CallGuard_call R E g a s of
        (Inl e, s') \<Rightarrow> (Inl e, s')
      | (Inr rv, s') \<Rightarrow>
          (case CallGuard_calls R E g as s' of
             (Inl e, s'') \<Rightarrow> (Inl e, s'')
           | (Inr rvs, s'') \<Rightarrow> (Inr (rv # rvs), s'')))"

text \<open>Sample C functions: each ignores its arguments and returns a constant.\<close>

definition returns_const :: "'rv \<Rightarrow> ('a, 'rv, 'x) callable" where
  "returns_const c args p = (Inr c, p)"

text \<open>A C function that fails the C way: it sets \<open>errno\<close> and returns \<open>-1\<close>.\<close>

definition fails_with_errno :: "int \<Rightarrow> ('a, int, 'x) callable" where
  "fails_with_errno code args p = (Inr (- 1), p\<lparr>errno := code\<rparr>)"

text \<open>A custom error policy whose handler only records the failure in \<open>errno\<close> and returns.\<close>

definition RecordingErrorPolicy :: "(int, 'x) error_policy" where
  "RecordingErrorPolicy = \<lparr>handleError = (\<lambda>rv p. (None, p\<lparr>errno := - rv\<rparr>))\<rparr>"

text \<open>The log without the \<open>HandleError\<close> events: the hook calls and the calls of the callable.\<close>

definition calls_only :: "'rv event list \<Rightarrow> 'rv event list" where
  "calls_only log = filter (\<lambda>e. \<not> is_HandleError e) log"

section \<open>The resource guard\<close>

text \<open>
  Modelled from the spec: the header that declares \<open>Guard\<close>, \<open>DefaultFreePolicy\<close> and
  the storage policies (\<open>cppc.hpp\<close>, included by \<open>tests/guard_test.cpp\<close>) is not among
  the sources, and neither is the mock API of the tests (\<open>test_api.h\<close>). What follows is
  the guard of sections 3 and 4.1 of the specification; the tests are read against it.
\<close>

text \<open>
  Modelled from the spec: a cleanup action is "a callable accepting a reference to the
  guarded value type and performing side-effecting release logic"; it works on a state
  \<open>'s\<close> and may throw.
\<close>

type_synonym ('v, 's) action = "'v \<Rightarrow> 's \<Rightarrow> exn option \<times> 's"

text \<open>
  Modelled from the spec: the cleanup action held by a guard is either the
  default-constructed "empty" callable of the default free policy or some action.
\<close>

datatype ('v, 's) deleter = EmptyFunction | Action "('v, 's) action"

text \<open>
  Modelled from the spec: the guard invokes its cleanup action at one place; each such
  invocation appends one event, carrying the value it is applied to, to a log that the
  actions never see.
\<close>

datatype 'v guard_event = Cleanup 'v

type_synonym ('v, 's) gst = "'s \<times> 'v guard_event list"

text \<open>
  Modelled from the spec: "if the cleanup action is in its default/empty state and is
  invoked, invocation must fail loudly": the invalid-invocation error of the tests,
  \<open>std::bad_function_call\<close>.
\<close>

definition invoke :: "('v, 's) deleter \<Rightarrow> 'v \<Rightarrow> ('v, 's) gst \<Rightarrow> exn option \<times> ('v, 's) gst" where
  "invoke d v st =
     (case d of
        EmptyFunction \<Rightarrow> (Some bad_function_call, (fst st, snd st @ [Cleanup v]))
      | Action A \<Rightarrow> (case A v (fst st) of (r, s') \<Rightarrow> (r, (s', snd st @ [Cleanup v]))))"

text \<open>
  Modelled from the spec: a guard owns a cleanup action and a guarded value; a guard that
  has been moved from is inert.
\<close>

record ('v, 's) guard =
  cleanup :: "('v, 's) deleter"
  guarded :: 'v
  inert :: bool

text \<open>
  Modelled from the spec: construction binds a cleanup action and a value. The forms that
  omit one of them default-construct it: the caller passes the default, which for the
  default free policy is \<open>EmptyFunction\<close>.
\<close>

definition Guard_new :: "('v, 's) deleter \<Rightarrow> 'v \<Rightarrow> ('v, 's) guard" where
  "Guard_new d v = \<lparr>cleanup = d, guarded = v, inert = False\<rparr>"

text \<open>Modelled from the spec: "\<open>get()\<close> returns a reference to the guarded value".\<close>

definition Guard_get :: "('v, 's) guard \<Rightarrow> 'v" where
  "Guard_get g = guarded g"

text \<open>
  Modelled from the spec: "destruction invokes the cleanup action on the guarded value
  exactly once, unless the guard has been moved-from (in which case destruction is a
  no-op)".
\<close>

definition Guard_destroy :: "('v, 's) guard \<Rightarrow> ('v, 's) gst \<Rightarrow> exn option \<times> ('v, 's) gst" where
  "Guard_destroy g st = (if inert g then (None, st) else invoke (cleanup g) (guarded g) st)"

text \<open>
  Modelled from the spec: "move construction and move assignment transfer ownership of
  both the cleanup action and the guarded value, and must leave the source in the inert
  state". The result is the new guard and the source as the move leaves it. (The spec
  speaks of moving from an owning guard; from an inert source, no obligation is passed on.)
\<close>

definition Guard_move :: "('v, 's) guard \<Rightarrow> ('v, 's) guard \<times> ('v, 's) guard" where
  "Guard_move src = (src, src\<lparr>inert := True\<rparr>)"

text \<open>
  Modelled from the spec: "move assignment to a bound guard must destroy/release the
  guard's current binding and its own cleanup obligation before accepting the new
  binding". If the release throws, the assignment ends there and the exception is all
  that comes back.
\<close>

definition Guard_move_assign ::
  "('v, 's) guard \<Rightarrow> ('v, 's) guard \<Rightarrow> ('v, 's) gst
     \<Rightarrow> (exn + ('v, 's) guard \<times> ('v, 's) guard) \<times> ('v, 's) gst" where
  "Guard_move_assign dst src st =
     (case Guard_destroy dst st of
        (Some e, st') \<Rightarrow> (Inl e, st')
      | (None, st') \<Rightarrow> (Inr (Guard_move src), st'))"

text \<open>
  Modelled from the spec: the end of a scope destroys its guards one after the other, in
  the order of the list; a destructor that throws does not keep the remaining ones from
  running. The exceptions are collected.
\<close>

fun Guard_destroy_all :: "('v, 's) guard list \<Rightarrow> ('v, 's) gst \<Rightarrow> exn list \<times> ('v, 's) gst" where
  "Guard_destroy_all [] st = ([], st)"
| "Guard_destroy_all (g # gs) st =
     (case Guard_destroy g st of
        (r, st') \<Rightarrow>
          (case Guard_destroy_all gs st' of
             (es, st'') \<Rightarrow> ((case r of None \<Rightarrow> [] | Some e \<Rightarrow> [e]) @ es, st'')))"

text \<open>
  Modelled from the spec: a chain of \<open>n\<close> move constructions starting from a guard. The
  result is the list of the moved-from guards, oldest first, and the guard at the end of
  the chain.
\<close>

fun move_chain :: "nat \<Rightarrow> ('v, 's) guard \<Rightarrow> ('v, 's) guard list \<times> ('v, 's) guard" where
  "move_chain 0 g = ([], g)"
| "move_chain (Suc n) g =
     (case Guard_move g of
        (g2, g') \<Rightarrow> (case move_chain n g2 of (srcs, final) \<Rightarrow> (g' # srcs, final)))"

subsection \<open>Exception specification of the destructor\<close>

text \<open>
  The kinds of cleanup-action types that \<open>tests/guard_test.cpp\<close> instantiates \<open>Guard\<close>
  with: the \<open>std::function\<close> of the default free policy, a class with a call operator,
  a function pointer and a function reference. The flag says whether the declaration
  carries \<open>noexcept\<close>.
\<close>

datatype deleter_type = StdFunction | Functor bool | FunctionPointer bool | FunctionReference bool

text \<open>
  Whether a call of a value of that type is a non-throwing expression for the compiler,
  under the language standard \<open>__cplusplus\<close>: \<open>std::function::operator()\<close> is not;
  a call operator is when declared so; \<open>noexcept\<close> belongs to a function type from
  C++17 on and is dropped from it before.
\<close>

definition invocation_noexcept :: "nat \<Rightarrow> deleter_type \<Rightarrow> bool" where
  "invocation_noexcept cplusplus T =
     (case T of
        StdFunction \<Rightarrow> False
      | Functor declared \<Rightarrow> declared
      | FunctionPointer declared \<Rightarrow> declared \<and> \<not> cplusplus < 201703
      | FunctionReference declared \<Rightarrow> declared \<and> \<not> cplusplus < 201703)"

text \<open>
  Modelled from the spec: the declaration of \<open>~Guard\<close> is not among the sources. "The
  destructor's failure-transparency is determined statically by whether the cleanup
  action's invocation is declared not to raise."
\<close>

definition destructor_noexcept :: "nat \<Rightarrow> deleter_type \<Rightarrow> bool" where
  "destructor_noexcept cplusplus T = invocation_noexcept cplusplus T"

text \<open>
  The five \<open>static_assert\<close>s on \<open>noexcept(... .~Guard())\<close> at the end of
  \<open>tests/guard_test.cpp\<close>, with its \<open>#if __cplusplus < 201703L\<close>. \<open>CustomDeleter\<close>
  declares \<open>operator()\<close> \<open>noexcept\<close>; \<open>GuardT<>\<close> has the default free policy.
\<close>

definition guard_test_static_asserts :: "nat \<Rightarrow> bool" where
  "guard_test_static_asserts cplusplus =
     (destructor_noexcept cplusplus (Functor True)
      \<and> \<not> destructor_noexcept cplusplus StdFunction
      \<and> (if cplusplus < 201703
         then \<not> destructor_noexcept cplusplus (FunctionReference True)
              \<and> \<not> destructor_noexcept cplusplus (FunctionPointer True)
         else destructor_noexcept cplusplus (FunctionReference True)
              \<and> destructor_noexcept cplusplus (FunctionPointer True))
      \<and> \<not> destructor_noexcept cplusplus (FunctionPointer False))"

subsection \<open>The mock API of the tests\<close>

text \<open>
  Modelled from the spec: the mock API is "used only to observe whether cleanup actions
  fired": it counts the calls of \<open>release_resources\<close> and of \<open>free_resources\<close>.
\<close>

record MockAPI =
  releaseResourcesFunc :: nat
  freeResourcesFunc :: nat

definition release_resources :: "('v, MockAPI) action" where
  "release_resources v m = (None, m\<lparr>releaseResourcesFunc := releaseResourcesFunc m + 1\<rparr>)"

definition free_resources :: "('v, MockAPI) action" where
  "free_resources v m = (None, m\<lparr>freeResourcesFunc := freeResourcesFunc m + 1\<rparr>)"

text \<open>\<open>CustomDeleter<T>::operator()\<close> of the tests calls \<open>release_resources(&t)\<close>.\<close>

definition CustomDeleter :: "('v, MockAPI) deleter" where
  "CustomDeleter = Action release_resources"

text \<open>
  \<open>testFunctionPointerAsFreeFunc\<close>: a guard with \<open>&free_resources\<close> and a value is
  created on the heap and deleted. The result is the exception of the \<open>delete\<close>, if any,
  and the mock API afterwards.
\<close>

definition testFunctionPointerAsFreeFunc :: "'v \<Rightarrow> exn option \<times> ('v, MockAPI) gst" where
  "testFunctionPointerAsFreeFunc v =
     (let guard = Guard_new (Action free_resources) v
      in Guard_destroy guard (\<lparr>releaseResourcesFunc = 0, freeResourcesFunc = 0\<rparr>, []))"

text \<open>
  \<open>testThatDefaulFreePolicyThrowsIfEmpty\<close>: a default-constructed guard with the default
  free policy is deleted.
\<close>

definition testThatDefaulFreePolicyThrowsIfEmpty :: "'v \<Rightarrow> exn option \<times> ('v, MockAPI) gst" where
  "testThatDefaulFreePolicyThrowsIfEmpty v =
     (let guard = Guard_new EmptyFunction v
      in Guard_destroy guard (\<lparr>releaseResourcesFunc = 0, freeResourcesFunc = 0\<rparr>, []))"

text \<open>
  \<open>testMoveConstruction\<close>: \<open>guard\<close> is default-constructed with a \<open>CustomDeleter\<close>,
  \<open>another\<close> is move-constructed from it, and the scope ends: \<open>another\<close> is destroyed
  first, \<open>guard\<close> after it.
\<close>

definition testMoveConstruction :: "'v \<Rightarrow> exn list \<times> ('v, MockAPI) gst" where
  "testMoveConstruction v =
     (let guard = Guard_new CustomDeleter v;
          (another, guard) = Guard_move guard
      in Guard_destroy_all [another, guard] (\<lparr>releaseResourcesFunc = 0, freeResourcesFunc = 0\<rparr>, []))"

text \<open>
  \<open>testMoveAssignment\<close>: as before, then a temporary guard is move-assigned to the
  moved-from \<open>guard\<close>; the temporary dies at the end of the statement, the two named
  guards at the end of the scope.
\<close>

definition testMoveAssignment :: "'v \<Rightarrow> 'v \<Rightarrow> (exn + exn list) \<times> ('v, MockAPI) gst" where
  "testMoveAssignment v w =
     (let guard = Guard_new CustomDeleter v;
          (another, guard) = Guard_move guard;
          temporary = Guard_new CustomDeleter w
      in case Guard_move_assign guard temporary (\<lparr>releaseResourcesFunc = 0, freeResourcesFunc = 0\<rparr>, []) of
           (Inl e, st) \<Rightarrow> (Inl e, st)
         | (Inr (guard, temporary), st) \<Rightarrow>
             (case Guard_destroy_all [temporary, another, guard] st of
                (es, st') \<Rightarrow> (Inr es, st')))"

section \<open>Properties of the checked call\<close>

lemma filter_HandleError_CallIf:
  "filter is_HandleError (snd (CallIf c R s)) = filter is_HandleError (snd s)"
  by (simp add: CallIf_def split: option.splits)

lemma format_d_minus_one: "format_d (- 1) = ''-1''"
  by (simp add: format_d_def digits.simps)

lemma calls_only_append [simp]: "calls_only (xs @ ys) = calls_only xs @ calls_only ys"
  by (simp add: calls_only_def)

lemma calls_only_simps [simp]:
  "calls_only [] = []"
  "calls_only (PreCall # xs) = PreCall # calls_only xs"
  "calls_only (Call # xs) = Call # calls_only xs"
  "calls_only (HandleError rv # xs) = calls_only xs"
  by (simp_all add: calls_only_def)

lemma CALL_CHECKED_hook_first:
  assumes "preCall R = Some h"
  shows "CALL_CHECKED R E f a s
           = CALL_CHECKED (R\<lparr>preCall := None\<rparr>) E f a (h (fst s), snd s @ [PreCall])"
  using assms
  by (simp add: CALL_CHECKED_def CallIf_def HasPreCall_def Let_def split: prod.split sum.split)

lemma CALL_CHECKED_no_hook_log:
  assumes "preCall R = None"
  shows "calls_only (snd (snd (CALL_CHECKED R E f a s))) = calls_only (snd s) @ [Call]"
  using assms
  by (simp add: CALL_CHECKED_def CallIf_def HasPreCall_def Let_def
        split: prod.splits sum.splits option.splits)

lemma CALL_CHECKED_hook_log:
  assumes "preCall R = Some h"
  shows "calls_only (snd (snd (CALL_CHECKED R E f a s))) = calls_only (snd s) @ [PreCall, Call]"
  by (simp add: CALL_CHECKED_hook_first [OF assms] CALL_CHECKED_no_hook_log)

lemma CallGuard_calls_hook_log:
  assumes "preCall R = Some h"
  shows "\<exists>k \<le> length as.
           calls_only (snd (snd (CallGuard_calls R E g as s)))
             = calls_only (snd s) @ concat (replicate k [PreCall, Call])
         \<and> (\<forall>rvs. fst (CallGuard_calls R E g as s) = Inr rvs \<longrightarrow> k = length as)"
proof (induction as arbitrary: s)
  case Nil
  show ?case by simp
next
  case (Cons a as)
  obtain out s' where one: "CallGuard_call R E g a s = (out, s')"
    by (cases "CallGuard_call R E g a s")
  have log1: "calls_only (snd s') = calls_only (snd s) @ [PreCall, Call]"
    using CALL_CHECKED_hook_log [OF assms, of E "functor_member g" a s] one
    by (simp add: CallGuard_call_def)
  show ?case
  proof (cases out)
    case (Inl e)
    with one log1 have "calls_only (snd (snd (CallGuard_calls R E g (a # as) s)))
        = calls_only (snd s) @ concat (replicate 1 [PreCall, Call])
      \<and> (\<forall>rvs. fst (CallGuard_calls R E g (a # as) s) = Inr rvs \<longrightarrow> 1 = length (a # as))"
      by simp
    then show ?thesis
      by (intro exI [of _ 1]) simp
  next
    case (Inr rv)
    from Cons.IH [of s'] obtain k where k: "k \<le> length as"
      and logk: "calls_only (snd (snd (CallGuard_calls R E g as s')))
                   = calls_only (snd s') @ concat (replicate k [PreCall, Call])"
      and all: "\<forall>rvs. fst (CallGuard_calls R E g as s') = Inr rvs \<longrightarrow> k = length as"
      by blast
    obtain out' s'' where rest: "CallGuard_calls R E g as s' = (out', s'')"
      by (cases "CallGuard_calls R E g as s'")
    have step: "snd (CallGuard_calls R E g (a # as) s) = s''"
      using one Inr rest by (cases out') simp_all
    have "calls_only (snd (snd (CallGuard_calls R E g (a # as) s)))
        = calls_only (snd s) @ concat (replicate (Suc k) [PreCall, Call])"
      using step rest logk log1 by simp
    moreover have "\<forall>rvs. fst (CallGuard_calls R E g (a # as) s) = Inr rvs
        \<longrightarrow> Suc k = length (a # as)"
      using one Inr rest all by (cases out') simp_all
    ultimately show ?thesis
      using k by (intro exI [of _ "Suc k"]) simp
  qed
qed

lemma filter_PreCall_error_CallGuard_call:
  "filter is_PreCall (snd (snd (error_CallGuard_call R E g a s))) = filter is_PreCall (snd s)"
  by (simp add: error_CallGuard_call_def Let_def split: prod.splits sum.splits option.splits)

text \<open>
  Claim C3. When the callable returns \<open>rv\<close> and the policy's predicate holds of it,
  \<open>CALL_CHECKED\<close> returns \<open>rv\<close> itself, the process state is the one the callable left,
  and the log gains no \<open>HandleError\<close> event: the handler is not invoked. The same holds
  through \<open>CallGuard\<close> and \<open>CallCheckContext\<close>, and for the call operator of
  \<open>cwrap::error::CallGuard\<close> in \<open>checkcall.h\<close>.
\<close>

theorem success_passes_value_through:
  "(callable args (fst (CallIf (HasPreCall R) R s)) = (Inr rv, p') \<and> returnValueIsOk R rv p' \<longrightarrow>
      CALL_CHECKED R E callable args s
        = (Inr rv, (p', snd (CallIf (HasPreCall R) R s) @ [Call]))
    \<and> CallGuard_call R E \<lparr>functor_member = callable\<rparr> args s
        = (Inr rv, (p', snd (CallIf (HasPreCall R) R s) @ [Call]))
    \<and> CallCheckContext_CALL_CHECKED R E callable args s
        = (Inr rv, (p', snd (CallIf (HasPreCall R) R s) @ [Call]))
    \<and> filter is_HandleError (snd (snd (CALL_CHECKED R E callable args s)))
        = filter is_HandleError (snd s))
 \<and> (callable args (fst s) = (Inr rv, q') \<and> returnValueIsOk R rv q' \<longrightarrow>
      error_CallGuard_call R E \<lparr>functor_member = callable\<rparr> args s
        = (Inr rv, (q', snd s @ [Call])))"
  by (simp add: CALL_CHECKED_def CallGuard_call_def CallCheckContext_CALL_CHECKED_def
        error_CallGuard_call_def Let_def filter_HandleError_CallIf)

theorem success_passes_value_through_witness:
  "returns_const (0::int) ()
       (fst (CallIf (HasPreCall IsZeroReturnCheckPolicy) IsZeroReturnCheckPolicy (\<lparr>errno = 7\<rparr>, [])))
     = (Inr 0, \<lparr>errno = 7\<rparr>)
   \<and> returnValueIsOk IsZeroReturnCheckPolicy (0::int) \<lparr>errno = 7\<rparr>
   \<and> CALL_CHECKED IsZeroReturnCheckPolicy DefaultErrorPolicy (returns_const 0) () (\<lparr>errno = 7\<rparr>, [])
     = (Inr 0, (\<lparr>errno = 7\<rparr>, [Call]))
   \<and> error_CallGuard_call error_IsZeroReturnCheckPolicy (error_DefaultErrorPolicy format_d)
        \<lparr>functor_member = returns_const 0\<rparr> () (\<lparr>errno = 7\<rparr>, [])
     = (Inr 0, (\<lparr>errno = 7\<rparr>, [Call]))"
  using success_passes_value_through
          [of "returns_const 0" "()" IsZeroReturnCheckPolicy "(\<lparr>errno = 7\<rparr>, [])" "0::int"
              "\<lparr>errno = 7\<rparr>" DefaultErrorPolicy "\<lparr>errno = 7\<rparr>"]
        success_passes_value_through
          [of "returns_const 0" "()" error_IsZeroReturnCheckPolicy "(\<lparr>errno = 7\<rparr>, [])" "0::int"
              "\<lparr>errno = 7\<rparr>" "error_DefaultErrorPolicy format_d" "\<lparr>errno = 7\<rparr>"]
  by (simp add: CallIf_def HasPreCall_def IsZeroReturnCheckPolicy_def
        error_IsZeroReturnCheckPolicy_def returns_const_def)

text \<open>
  Claim C2, as the code has it. When the callable returns \<open>rv\<close> and the policy's
  predicate fails on it, a checked call (\<open>CALL_CHECKED\<close> itself, or through
  \<open>CallGuard\<close> or \<open>CallCheckContext\<close>) invokes \<open>handleError\<close> exactly once, with
  \<open>rv\<close>: the log gains the one event \<open>HandleError rv\<close>. The outcome of the call is
  the outcome of the handler: the exception it throws, or \<open>rv\<close> when it returns. With
  each of the three error policies of the library (\<open>ReportReturnValueErrorPolicy\<close>,
  \<open>ErrnoErrorPolicy\<close>, \<open>ErrorCodeErrorPolicy\<close>) the handler throws a
  \<open>runtime_error\<close>, so the call ends with that exception and nothing returns to the
  call site.
\<close>

theorem failure_invokes_handler_once:
  assumes "callable args (fst (CallIf (HasPreCall R) R s)) = (Inr rv, p')"
      and "\<not> returnValueIsOk R rv p'"
  shows "CALL_CHECKED R E callable args s
           = (case handleError E rv p' of
                (Some e, p'') \<Rightarrow> (Inl e, (p'', snd (CallIf (HasPreCall R) R s) @ [Call, HandleError rv]))
              | (None, p'') \<Rightarrow> (Inr rv, (p'', snd (CallIf (HasPreCall R) R s) @ [Call, HandleError rv])))
       \<and> CallGuard_call R E \<lparr>functor_member = callable\<rparr> args s
           = (case handleError E rv p' of
                (Some e, p'') \<Rightarrow> (Inl e, (p'', snd (CallIf (HasPreCall R) R s) @ [Call, HandleError rv]))
              | (None, p'') \<Rightarrow> (Inr rv, (p'', snd (CallIf (HasPreCall R) R s) @ [Call, HandleError rv])))
       \<and> CallCheckContext_CALL_CHECKED R E callable args s
           = (case handleError E rv p' of
                (Some e, p'') \<Rightarrow> (Inl e, (p'', snd (CallIf (HasPreCall R) R s) @ [Call, HandleError rv]))
              | (None, p'') \<Rightarrow> (Inr rv, (p'', snd (CallIf (HasPreCall R) R s) @ [Call, HandleError rv])))
       \<and> filter is_HandleError (snd (snd (CALL_CHECKED R E callable args s)))
           = filter is_HandleError (snd s) @ [HandleError rv]
       \<and> filter is_HandleError (snd (snd (CallGuard_call R E \<lparr>functor_member = callable\<rparr> args s)))
           = filter is_HandleError (snd s) @ [HandleError rv]
       \<and> filter is_HandleError (snd (snd (CallCheckContext_CALL_CHECKED R E callable args s)))
           = filter is_HandleError (snd s) @ [HandleError rv]
       \<and> CALL_CHECKED R (ReportReturnValueErrorPolicy fmt) callable args s
           = (Inl (runtime_error (''Return value indicated error: '' @ fmt rv)),
              (p', snd (CallIf (HasPreCall R) R s) @ [Call, HandleError rv]))
       \<and> CallGuard_call R (ReportReturnValueErrorPolicy fmt) \<lparr>functor_member = callable\<rparr> args s
           = (Inl (runtime_error (''Return value indicated error: '' @ fmt rv)),
              (p', snd (CallIf (HasPreCall R) R s) @ [Call, HandleError rv]))
       \<and> CallCheckContext_CALL_CHECKED R (ReportReturnValueErrorPolicy fmt) callable args s
           = (Inl (runtime_error (''Return value indicated error: '' @ fmt rv)),
              (p', snd (CallIf (HasPreCall R) R s) @ [Call, HandleError rv]))
       \<and> CALL_CHECKED R (ErrnoErrorPolicy strerror) callable args s
           = (Inl (runtime_error (strerror (errno p'))),
              (p', snd (CallIf (HasPreCall R) R s) @ [Call, HandleError rv]))
       \<and> CallGuard_call R (ErrnoErrorPolicy strerror) \<lparr>functor_member = callable\<rparr> args s
           = (Inl (runtime_error (strerror (errno p'))),
              (p', snd (CallIf (HasPreCall R) R s) @ [Call, HandleError rv]))
       \<and> CallCheckContext_CALL_CHECKED R (ErrnoErrorPolicy strerror) callable args s
           = (Inl (runtime_error (strerror (errno p'))),
              (p', snd (CallIf (HasPreCall R) R s) @ [Call, HandleError rv]))
       \<and> (icallable iargs (fst (CallIf (HasPreCall Ri) Ri si)) = (Inr i, q')
            \<and> \<not> returnValueIsOk Ri i q' \<longrightarrow>
            CALL_CHECKED Ri (ErrorCodeErrorPolicy strerror) icallable iargs si
              = (Inl (runtime_error (strerror (c_int (- i)))),
                 (q', snd (CallIf (HasPreCall Ri) Ri si) @ [Call, HandleError i]))
          \<and> CallGuard_call Ri (ErrorCodeErrorPolicy strerror) \<lparr>functor_member = icallable\<rparr> iargs si
              = (Inl (runtime_error (strerror (c_int (- i)))),
                 (q', snd (CallIf (HasPreCall Ri) Ri si) @ [Call, HandleError i]))
          \<and> CallCheckContext_CALL_CHECKED Ri (ErrorCodeErrorPolicy strerror) icallable iargs si
              = (Inl (runtime_error (strerror (c_int (- i)))),
                 (q', snd (CallIf (HasPreCall Ri) Ri si) @ [Call, HandleError i])))"
proof -
  have general: "CALL_CHECKED R E' callable args s
      = (case handleError E' rv p' of
           (Some e, p'') \<Rightarrow> (Inl e, (p'', snd (CallIf (HasPreCall R) R s) @ [Call, HandleError rv]))
         | (None, p'') \<Rightarrow> (Inr rv, (p'', snd (CallIf (HasPreCall R) R s) @ [Call, HandleError rv])))"
    for E'
    using assms by (simp add: CALL_CHECKED_def Let_def split: prod.split option.split)
  have once: "filter is_HandleError (snd (snd (CALL_CHECKED R E callable args s)))
      = filter is_HandleError (snd s) @ [HandleError rv]"
    by (simp add: general filter_HandleError_CallIf split: prod.split option.split)
  have int_case: "CALL_CHECKED Ri (ErrorCodeErrorPolicy strerror) icallable iargs si
      = (Inl (runtime_error (strerror (c_int (- i)))),
         (q', snd (CallIf (HasPreCall Ri) Ri si) @ [Call, HandleError i]))"
    if "icallable iargs (fst (CallIf (HasPreCall Ri) Ri si)) = (Inr i, q')"
      and "\<not> returnValueIsOk Ri i q'"
    using that by (simp add: CALL_CHECKED_def Let_def ErrorCodeErrorPolicy_def)
  show ?thesis
    using once int_case
    by (simp add: CallGuard_call_def CallCheckContext_CALL_CHECKED_def general
          ReportReturnValueErrorPolicy_def ErrnoErrorPolicy_def)
qed

theorem failure_invokes_handler_once_witness:
  "returns_const (- 1 :: int) ()
       (fst (CallIf (HasPreCall (IsZeroReturnCheckPolicy :: (int, unit) return_check_policy)) IsZeroReturnCheckPolicy (\<lparr>errno = 0\<rparr>, [])))
     = (Inr (- 1), \<lparr>errno = 0\<rparr>)
   \<and> \<not> returnValueIsOk IsZeroReturnCheckPolicy (- 1 :: int) \<lparr>errno = 0\<rparr>
   \<and> filter is_HandleError
        (snd (snd (CALL_CHECKED IsZeroReturnCheckPolicy DefaultErrorPolicy (returns_const (- 1)) ()
                     (\<lparr>errno = 0\<rparr>, []))))
     = [HandleError (- 1)]
   \<and> CALL_CHECKED IsZeroReturnCheckPolicy DefaultErrorPolicy (returns_const (- 1)) () (\<lparr>errno = 0\<rparr>, [])
     = (Inl (runtime_error ''Return value indicated error: -1''),
        (\<lparr>errno = 0\<rparr>, [Call, HandleError (- 1)]))
   \<and> CallGuard_call IsZeroReturnCheckPolicy (ReportReturnValueErrorPolicy format_d)
        \<lparr>functor_member = returns_const (- 1)\<rparr> () (\<lparr>errno = 0\<rparr>, [])
     = (Inl (runtime_error ''Return value indicated error: -1''),
        (\<lparr>errno = 0\<rparr>, [Call, HandleError (- 1)]))
   \<and> returns_const (- 2147483648 :: int) ()
       (fst (CallIf (HasPreCall (IsNotNegativeReturnCheckPolicy :: (int, unit) return_check_policy)) IsNotNegativeReturnCheckPolicy
               (\<lparr>errno = 0\<rparr>, [])))
     = (Inr (- 2147483648), \<lparr>errno = 0\<rparr>)
   \<and> \<not> returnValueIsOk IsNotNegativeReturnCheckPolicy (- 2147483648) \<lparr>errno = 0\<rparr>
   \<and> CALL_CHECKED IsNotNegativeReturnCheckPolicy (ErrorCodeErrorPolicy format_d)
        (returns_const (- 2147483648)) () (\<lparr>errno = 0\<rparr>, [])
     = (Inl (runtime_error ''-2147483648''), (\<lparr>errno = 0\<rparr>, [Call, HandleError (- 2147483648)]))"
proof -
  let ?s = "(\<lparr>errno = 0\<rparr>, []) :: (int, unit) st"
  have call: "returns_const (- 1 :: int) ()
       (fst (CallIf (HasPreCall (IsZeroReturnCheckPolicy :: (int, unit) return_check_policy)) IsZeroReturnCheckPolicy ?s))
     = (Inr (- 1), \<lparr>errno = 0\<rparr>)"
    by (simp add: returns_const_def CallIf_def HasPreCall_def IsZeroReturnCheckPolicy_def)
  have bad: "\<not> returnValueIsOk IsZeroReturnCheckPolicy (- 1 :: int) \<lparr>errno = 0\<rparr>"
    by (simp add: IsZeroReturnCheckPolicy_def)
  have icall: "returns_const (- 2147483648 :: int) ()
       (fst (CallIf (HasPreCall (IsNotNegativeReturnCheckPolicy :: (int, unit) return_check_policy)) IsNotNegativeReturnCheckPolicy ?s))
     = (Inr (- 2147483648), \<lparr>errno = 0\<rparr>)"
    by (simp add: returns_const_def CallIf_def HasPreCall_def IsNotNegativeReturnCheckPolicy_def)
  have ibad: "\<not> returnValueIsOk IsNotNegativeReturnCheckPolicy (- 2147483648) \<lparr>errno = 0\<rparr>"
    by (simp add: IsNotNegativeReturnCheckPolicy_def)
  have log: "snd (CallIf (HasPreCall (IsZeroReturnCheckPolicy :: (int, unit) return_check_policy)) IsZeroReturnCheckPolicy ?s) = []"
    by (simp add: CallIf_def HasPreCall_def IsZeroReturnCheckPolicy_def)
  have ilog: "snd (CallIf (HasPreCall (IsNotNegativeReturnCheckPolicy :: (int, unit) return_check_policy))
                    IsNotNegativeReturnCheckPolicy ?s) = []"
    by (simp add: CallIf_def HasPreCall_def IsNotNegativeReturnCheckPolicy_def)
  have wrapped: "format_d (c_int (- (- 2147483648))) = ''-2147483648''"
    by (simp add: c_int_def format_d_def digits.simps)
  note at_input = failure_invokes_handler_once
         [where callable = "returns_const (- 1)" and args = "()" and R = IsZeroReturnCheckPolicy
            and s = ?s and rv = "- 1 :: int" and p' = "\<lparr>errno = 0\<rparr>"
            and E = DefaultErrorPolicy and fmt = format_d and strerror = format_d
            and icallable = "returns_const (- 2147483648)" and iargs = "()"
            and Ri = IsNotNegativeReturnCheckPolicy and si = ?s and i = "- 2147483648"
            and q' = "\<lparr>errno = 0\<rparr>", OF call bad]
  have once0: "filter is_HandleError
        (snd (snd (CALL_CHECKED IsZeroReturnCheckPolicy DefaultErrorPolicy (returns_const (- 1)) () ?s)))
     = filter is_HandleError (snd ?s) @ [HandleError (- 1)]"
    by (rule at_input [THEN conjunct2, THEN conjunct2, THEN conjunct2, THEN conjunct1])
  then have once: "filter is_HandleError
        (snd (snd (CALL_CHECKED IsZeroReturnCheckPolicy DefaultErrorPolicy (returns_const (- 1)) () ?s)))
     = [HandleError (- 1)]"
    by simp
  have raised0:
    "CALL_CHECKED IsZeroReturnCheckPolicy (ReportReturnValueErrorPolicy format_d)
        (returns_const (- 1)) () ?s
     = (Inl (runtime_error (''Return value indicated error: '' @ format_d (- 1))),
        (\<lparr>errno = 0\<rparr>,
         snd (CallIf (HasPreCall (IsZeroReturnCheckPolicy :: (int, unit) return_check_policy)) IsZeroReturnCheckPolicy ?s)
           @ [Call, HandleError (- 1)]))"
    by (rule at_input [THEN conjunct2, THEN conjunct2, THEN conjunct2, THEN conjunct2, THEN conjunct2, THEN conjunct2, THEN conjunct1])
  then have raised: "CALL_CHECKED IsZeroReturnCheckPolicy DefaultErrorPolicy (returns_const (- 1)) () ?s
     = (Inl (runtime_error ''Return value indicated error: -1''),
        (\<lparr>errno = 0\<rparr>, [Call, HandleError (- 1)]))"
    by (simp add: log DefaultErrorPolicy_def format_d_minus_one)
  have wrapper0:
    "CallGuard_call IsZeroReturnCheckPolicy (ReportReturnValueErrorPolicy format_d)
        \<lparr>functor_member = returns_const (- 1)\<rparr> () ?s
     = (Inl (runtime_error (''Return value indicated error: '' @ format_d (- 1))),
        (\<lparr>errno = 0\<rparr>,
         snd (CallIf (HasPreCall (IsZeroReturnCheckPolicy :: (int, unit) return_check_policy)) IsZeroReturnCheckPolicy ?s)
           @ [Call, HandleError (- 1)]))"
    by (rule at_input [THEN conjunct2, THEN conjunct2, THEN conjunct2, THEN conjunct2, THEN conjunct2, THEN conjunct2, THEN conjunct2, THEN conjunct1])
  then have wrapper: "CallGuard_call IsZeroReturnCheckPolicy (ReportReturnValueErrorPolicy format_d)
        \<lparr>functor_member = returns_const (- 1)\<rparr> () ?s
     = (Inl (runtime_error ''Return value indicated error: -1''),
        (\<lparr>errno = 0\<rparr>, [Call, HandleError (- 1)]))"
    by (simp add: log format_d_minus_one)
  have least0:
    "CALL_CHECKED IsNotNegativeReturnCheckPolicy (ErrorCodeErrorPolicy format_d)
        (returns_const (- 2147483648)) () ?s
     = (Inl (runtime_error (format_d (c_int (- (- 2147483648))))),
        (\<lparr>errno = 0\<rparr>,
         snd (CallIf (HasPreCall (IsNotNegativeReturnCheckPolicy :: (int, unit) return_check_policy)) IsNotNegativeReturnCheckPolicy ?s)
           @ [Call, HandleError (- 2147483648)]))"
    by (rule at_input [THEN conjunct2, THEN conjunct2, THEN conjunct2, THEN conjunct2, THEN conjunct2, THEN conjunct2, THEN conjunct2, THEN conjunct2, THEN conjunct2, THEN conjunct2, THEN conjunct2, THEN conjunct2, THEN mp, OF conjI [OF icall ibad], THEN conjunct1])
  have least: "CALL_CHECKED IsNotNegativeReturnCheckPolicy (ErrorCodeErrorPolicy format_d)
        (returns_const (- 2147483648)) () ?s
     = (Inl (runtime_error ''-2147483648''), (\<lparr>errno = 0\<rparr>, [Call, HandleError (- 2147483648)]))"
    unfolding least0 wrapped ilog by simp
  from call bad once raised wrapper icall ibad least show ?thesis
    by (intro conjI)
qed

text \<open>
  Claim C2 as stated fails for an error policy whose handler returns: under the is-zero
  policy a callable returns -1, the handler of \<open>RecordingErrorPolicy\<close> is invoked and
  returns, and \<open>CALL_CHECKED\<close> returns -1 to the call site.
\<close>

theorem failure_invokes_handler_once_counterexample:
  "\<not> returnValueIsOk IsZeroReturnCheckPolicy (- 1 :: int) \<lparr>errno = 0\<rparr>
   \<and> CALL_CHECKED IsZeroReturnCheckPolicy RecordingErrorPolicy (returns_const (- 1)) ()
        (\<lparr>errno = 0\<rparr>, [])
     = (Inr (- 1), (\<lparr>errno = 1\<rparr>, [Call, HandleError (- 1)]))"
  by (simp add: CALL_CHECKED_def CallIf_def HasPreCall_def IsZeroReturnCheckPolicy_def
        RecordingErrorPolicy_def returns_const_def)

text \<open>
  Claim C10. When the predicate fails on \<open>rv\<close> and the handler of a custom error policy
  returns instead of throwing, \<open>CALL_CHECKED\<close> goes on to \<open>return retVal\<close>: the caller
  receives the failing \<open>rv\<close>, the same value it would receive under a policy that
  accepts everything. Nothing in \<open>CALL_CHECKED\<close> stops a handler from returning.
\<close>

theorem returning_handler_lets_failure_through:
  assumes "callable args (fst (CallIf (HasPreCall R) R s)) = (Inr rv, p')"
      and "\<not> returnValueIsOk R rv p'"
      and "handleError E rv p' = (None, p'')"
  shows "CALL_CHECKED R E callable args s
           = (Inr rv, (p'', snd (CallIf (HasPreCall R) R s) @ [Call, HandleError rv]))
       \<and> fst (CALL_CHECKED R E callable args s)
           = fst (CALL_CHECKED (R\<lparr>returnValueIsOk := (\<lambda>v p. True)\<rparr>) E callable args s)"
proof -
  let ?R' = "R\<lparr>returnValueIsOk := (\<lambda>v p. True)\<rparr>"
  have hook: "CallIf (HasPreCall ?R') ?R' s = CallIf (HasPreCall R) R s"
    by (simp add: CallIf_def HasPreCall_def)
  have failing: "CALL_CHECKED R E callable args s
      = (Inr rv, (p'', snd (CallIf (HasPreCall R) R s) @ [Call, HandleError rv]))"
    using assms by (simp add: CALL_CHECKED_def Let_def)
  have succeeding: "fst (CALL_CHECKED ?R' E callable args s) = Inr rv"
    using assms(1) by (simp add: CALL_CHECKED_def Let_def hook)
  from failing succeeding show ?thesis by simp
qed

theorem returning_handler_lets_failure_through_witness:
  "returns_const (- 1 :: int) ()
       (fst (CallIf (HasPreCall IsZeroReturnCheckPolicy) IsZeroReturnCheckPolicy (\<lparr>errno = 0\<rparr>, [])))
     = (Inr (- 1), \<lparr>errno = 0\<rparr>)
   \<and> \<not> returnValueIsOk IsZeroReturnCheckPolicy (- 1 :: int) \<lparr>errno = 0\<rparr>
   \<and> handleError RecordingErrorPolicy (- 1) \<lparr>errno = 0\<rparr> = (None, \<lparr>errno = 1\<rparr>)
   \<and> CALL_CHECKED IsZeroReturnCheckPolicy RecordingErrorPolicy (returns_const (- 1)) () (\<lparr>errno = 0\<rparr>, [])
     = (Inr (- 1), (\<lparr>errno = 1\<rparr>, [Call, HandleError (- 1)]))"
proof -
  have call: "returns_const (- 1 :: int) ()
       (fst (CallIf (HasPreCall IsZeroReturnCheckPolicy) IsZeroReturnCheckPolicy (\<lparr>errno = 0\<rparr>, [])))
     = (Inr (- 1), \<lparr>errno = 0\<rparr>)"
    by (simp add: returns_const_def CallIf_def HasPreCall_def IsZeroReturnCheckPolicy_def)
  have bad: "\<not> returnValueIsOk IsZeroReturnCheckPolicy (- 1 :: int) \<lparr>errno = 0\<rparr>"
    by (simp add: IsZeroReturnCheckPolicy_def)
  have returns: "handleError RecordingErrorPolicy (- 1) \<lparr>errno = 0\<rparr> = (None, \<lparr>errno = 1\<rparr>)"
    by (simp add: RecordingErrorPolicy_def)
  have log: "snd (CallIf (HasPreCall IsZeroReturnCheckPolicy) IsZeroReturnCheckPolicy
                   (\<lparr>errno = 0\<rparr>, [] :: int event list)) = []"
    by (simp add: CallIf_def HasPreCall_def IsZeroReturnCheckPolicy_def)
  note at_input = returning_handler_lets_failure_through
         [where callable = "returns_const (- 1)" and args = "()" and R = IsZeroReturnCheckPolicy
            and s = "(\<lparr>errno = 0\<rparr>, [])" and rv = "- 1 :: int" and p' = "\<lparr>errno = 0\<rparr>"
            and E = RecordingErrorPolicy and p'' = "\<lparr>errno = 1\<rparr>", OF call bad returns]
  have returned:
    "CALL_CHECKED IsZeroReturnCheckPolicy RecordingErrorPolicy (returns_const (- 1)) () (\<lparr>errno = 0\<rparr>, [])
     = (Inr (- 1), (\<lparr>errno = 1\<rparr>, [Call, HandleError (- 1)]))"
    using at_input [THEN conjunct1] by (simp add: log)
  from call bad returns returned show ?thesis
    by (intro conjI)
qed

text \<open>
  Claim C6. The predicates of the built-in policies: "is zero" holds iff the value is 0,
  "is non-zero" iff it is not 0, "is non-negative" iff it is at least 0, "is not null"
  iff the pointer is not the null pointer (and "errno is zero" iff \<open>errno\<close> is 0).
  Under the is-zero policy a callable that returns 0 has 0 returned to the caller, with
  any error policy; a callable that returns -1 makes the default error policy throw a
  \<open>runtime_error\<close> whose message ends in \<open>-1\<close>.
\<close>

theorem builtin_predicates:
  "returnValueIsOk IsZeroReturnCheckPolicy i p = (i = 0)
 \<and> returnValueIsOk IsNotZeroReturnCheckPolicy i p = (i \<noteq> 0)
 \<and> returnValueIsOk IsNotNegativeReturnCheckPolicy i p = (i \<ge> 0)
 \<and> returnValueIsOk IsNotNullptrReturnCheckPolicy ptr p = (ptr \<noteq> Nullptr)
 \<and> returnValueIsOk IsErrnoZeroReturnCheckPolicy v p = (errno p = 0)
 \<and> (callable args (fst s) = (Inr 0, p') \<longrightarrow>
       CALL_CHECKED IsZeroReturnCheckPolicy E callable args s = (Inr 0, (p', snd s @ [Call])))
 \<and> (callable args (fst s) = (Inr (- 1), p') \<longrightarrow>
       CALL_CHECKED IsZeroReturnCheckPolicy DefaultErrorPolicy callable args s
         = (Inl (runtime_error ''Return value indicated error: -1''),
            (p', snd s @ [Call, HandleError (- 1)])))"
  by (auto simp add: CALL_CHECKED_def Let_def CallIf_def HasPreCall_def
        IsZeroReturnCheckPolicy_def IsNotZeroReturnCheckPolicy_def
        IsNotNegativeReturnCheckPolicy_def IsNotNullptrReturnCheckPolicy_def
        IsErrnoZeroReturnCheckPolicy_def ReportReturnValueErrorPolicy_def
        DefaultErrorPolicy_def format_d_minus_one)

theorem builtin_predicates_witness:
  "returns_const (0::int) () (fst (\<lparr>errno = 3\<rparr>, [] :: int event list)) = (Inr 0, \<lparr>errno = 3\<rparr>)
 \<and> CALL_CHECKED IsZeroReturnCheckPolicy DefaultErrorPolicy (returns_const 0) () (\<lparr>errno = 3\<rparr>, [])
     = (Inr 0, (\<lparr>errno = 3\<rparr>, [Call]))
 \<and> fails_with_errno 2 () (fst (\<lparr>errno = 3\<rparr>, [] :: int event list)) = (Inr (- 1), \<lparr>errno = 2\<rparr>)
 \<and> CALL_CHECKED IsZeroReturnCheckPolicy DefaultErrorPolicy (fails_with_errno 2) () (\<lparr>errno = 3\<rparr>, [])
     = (Inl (runtime_error ''Return value indicated error: -1''),
        (\<lparr>errno = 2\<rparr>, [Call, HandleError (- 1)]))
 \<and> returnValueIsOk IsNotNullptrReturnCheckPolicy (Addr 4096) \<lparr>errno = 3\<rparr>
 \<and> \<not> returnValueIsOk IsNotNullptrReturnCheckPolicy Nullptr \<lparr>errno = 3\<rparr>
 \<and> \<not> returnValueIsOk IsNotNegativeReturnCheckPolicy (- 1) \<lparr>errno = 3\<rparr>
 \<and> \<not> returnValueIsOk IsNotZeroReturnCheckPolicy 0 \<lparr>errno = 3\<rparr>"
proof -
  have zero: "returns_const (0::int) () (fst (\<lparr>errno = 3\<rparr>, [] :: int event list))
      = (Inr 0, \<lparr>errno = 3\<rparr>)"
    by (simp add: returns_const_def)
  have minus: "fails_with_errno 2 () (fst (\<lparr>errno = 3\<rparr>, [] :: int event list))
      = (Inr (- 1), \<lparr>errno = 2\<rparr>)"
    by (simp add: fails_with_errno_def)
  from builtin_predicates
         [of 0 "\<lparr>errno = 3\<rparr>" Nullptr "0::int" "returns_const 0" "()" "(\<lparr>errno = 3\<rparr>, [])"
             "\<lparr>errno = 3\<rparr>" DefaultErrorPolicy]
       builtin_predicates
         [of "- 1" "\<lparr>errno = 3\<rparr>" "Addr 4096" "0::int" "fails_with_errno 2" "()"
             "(\<lparr>errno = 3\<rparr>, [])" "\<lparr>errno = 2\<rparr>" DefaultErrorPolicy]
  show ?thesis
    using zero minus by simp
qed

text \<open>
  Claim C9, as the code has it. The predicates of \<open>IsZeroReturnCheckPolicy\<close>,
  \<open>IsNotNegativeReturnCheckPolicy\<close>, \<open>IsNotZeroReturnCheckPolicy\<close> and
  \<open>IsNotNullptrReturnCheckPolicy\<close> (and the two of \<open>checkcall.h\<close>) depend on the return
  value alone: they give the same answer in any two process states. The predicate of
  \<open>IsErrnoZeroReturnCheckPolicy\<close> is the other way round: it is \<open>errno == 0\<close>, whatever
  the return value.
\<close>

theorem return_check_purity:
  "returnValueIsOk IsZeroReturnCheckPolicy i p = returnValueIsOk IsZeroReturnCheckPolicy i q
 \<and> returnValueIsOk IsNotNegativeReturnCheckPolicy i p
     = returnValueIsOk IsNotNegativeReturnCheckPolicy i q
 \<and> returnValueIsOk IsNotZeroReturnCheckPolicy i p = returnValueIsOk IsNotZeroReturnCheckPolicy i q
 \<and> returnValueIsOk IsNotNullptrReturnCheckPolicy ptr p
     = returnValueIsOk IsNotNullptrReturnCheckPolicy ptr q
 \<and> returnValueIsOk error_IsZeroReturnCheckPolicy i p
     = returnValueIsOk error_IsZeroReturnCheckPolicy i q
 \<and> returnValueIsOk error_IsNotNegativeReturnCheckPolicy i p
     = returnValueIsOk error_IsNotNegativeReturnCheckPolicy i q
 \<and> returnValueIsOk IsErrnoZeroReturnCheckPolicy v p = (errno p = 0)
 \<and> returnValueIsOk IsErrnoZeroReturnCheckPolicy v p
     = returnValueIsOk IsErrnoZeroReturnCheckPolicy w p"
  by (simp add: IsZeroReturnCheckPolicy_def IsNotNegativeReturnCheckPolicy_def
        IsNotZeroReturnCheckPolicy_def IsNotNullptrReturnCheckPolicy_def
        error_IsZeroReturnCheckPolicy_def error_IsNotNegativeReturnCheckPolicy_def
        IsErrnoZeroReturnCheckPolicy_def)

text \<open>
  Claim C9 as stated fails for \<open>IsErrnoZeroReturnCheckPolicy\<close>: the same return value 0
  is a success when \<open>errno\<close> is 0 and a failure when \<open>errno\<close> is 5.
\<close>

theorem return_check_purity_counterexample:
  "returnValueIsOk IsErrnoZeroReturnCheckPolicy (0::int) \<lparr>errno = 0\<rparr>
     \<noteq> returnValueIsOk IsErrnoZeroReturnCheckPolicy (0::int) \<lparr>errno = 5\<rparr>"
  by (simp add: IsErrnoZeroReturnCheckPolicy_def)

text \<open>
  Claim C5, as the code has it. For a policy with a pre-call hook \<open>h\<close>, a checked call of
  \<open>checkcall.hpp\<close> is the hook-less checked call started in the state that \<open>h\<close> leaves,
  with \<open>PreCall\<close> logged first; the hook-less call logs \<open>Call\<close> and no \<open>PreCall\<close>. So
  each invocation through \<open>CALL_CHECKED\<close>, \<open>CallCheckContext\<close> or \<open>cwrap::CallGuard\<close>
  runs the hook exactly once, immediately before the callable, and \<open>k\<close> invocations in
  a row through one \<open>CallGuard\<close> log \<open>k\<close> times \<open>PreCall, Call\<close> (all of them when none
  throws). The call operator of \<open>cwrap::error::CallGuard\<close> in \<open>checkcall.h\<close> has no
  hook mechanism: it logs no \<open>PreCall\<close> and behaves as if the policy had no hook.
\<close>

theorem preCall_hook_runs_once_before_call:
  assumes "preCall R = Some h"
  shows "CALL_CHECKED R E f a s
           = CALL_CHECKED (R\<lparr>preCall := None\<rparr>) E f a (h (fst s), snd s @ [PreCall])
       \<and> calls_only (snd (snd (CALL_CHECKED (R\<lparr>preCall := None\<rparr>) E f a s)))
           = calls_only (snd s) @ [Call]
       \<and> calls_only (snd (snd (CALL_CHECKED R E f a s))) = calls_only (snd s) @ [PreCall, Call]
       \<and> calls_only (snd (snd (CallCheckContext_CALL_CHECKED R E f a s)))
           = calls_only (snd s) @ [PreCall, Call]
       \<and> calls_only (snd (snd (CallGuard_call R E g a s))) = calls_only (snd s) @ [PreCall, Call]
       \<and> (\<exists>k \<le> length as.
             calls_only (snd (snd (CallGuard_calls R E g as s)))
               = calls_only (snd s) @ concat (replicate k [PreCall, Call])
           \<and> (\<forall>rvs. fst (CallGuard_calls R E g as s) = Inr rvs \<longrightarrow> k = length as))
       \<and> filter is_PreCall (snd (snd (error_CallGuard_call R E g a s))) = filter is_PreCall (snd s)
       \<and> error_CallGuard_call R E g a s = error_CallGuard_call (R\<lparr>preCall := None\<rparr>) E g a s"
proof -
  have legacy: "error_CallGuard_call R E g a s = error_CallGuard_call (R\<lparr>preCall := None\<rparr>) E g a s"
    by (simp add: error_CallGuard_call_def Let_def split: prod.split sum.split)
  show ?thesis
    using CALL_CHECKED_hook_first [OF assms, of E f a s]
      CALL_CHECKED_no_hook_log [of "R\<lparr>preCall := None\<rparr>" E f a s]
      CALL_CHECKED_hook_log [OF assms, of E f a s]
      CALL_CHECKED_hook_log [OF assms, of E "functor_member g" a s]
      CallGuard_calls_hook_log [OF assms, of as E g s]
      filter_PreCall_error_CallGuard_call [of R E g a s]
      legacy
    by (simp add: CallCheckContext_CALL_CHECKED_def CallGuard_call_def)
qed

theorem preCall_hook_runs_once_before_call_witness:
  "preCall (IsErrnoZeroReturnCheckPolicy :: (int, unit) return_check_policy)
     = Some (\<lambda>p. p\<lparr>errno := 0\<rparr>)
   \<and> CALL_CHECKED IsErrnoZeroReturnCheckPolicy DefaultErrorPolicy (returns_const 0) ()
        (\<lparr>errno = 5\<rparr>, [])
     = (Inr (0::int), (\<lparr>errno = 0\<rparr>, [PreCall, Call]))
   \<and> calls_only (snd (snd (CallGuard_calls IsErrnoZeroReturnCheckPolicy DefaultErrorPolicy
        \<lparr>functor_member = returns_const (0::int)\<rparr> [(), (), ()] (\<lparr>errno = 5\<rparr>, []))))
     = [PreCall, Call, PreCall, Call, PreCall, Call]"
proof -
  let ?R = "IsErrnoZeroReturnCheckPolicy :: (int, unit) return_check_policy"
  let ?g = "\<lparr>functor_member = returns_const (0::int)\<rparr> :: (unit, int, unit) CallGuard"
  have hook: "preCall ?R = Some (\<lambda>p. p\<lparr>errno := 0\<rparr>)"
    by (simp add: IsErrnoZeroReturnCheckPolicy_def)
  note at_input = preCall_hook_runs_once_before_call
         [where R = ?R and E = DefaultErrorPolicy and f = "returns_const 0" and a = "()"
            and s = "(\<lparr>errno = 5\<rparr>, [])" and g = ?g and as = "[(), (), ()]", OF hook]
  have once: "CALL_CHECKED ?R DefaultErrorPolicy (returns_const 0) () (\<lparr>errno = 5\<rparr>, [])
      = (Inr 0, (\<lparr>errno = 0\<rparr>, [PreCall, Call]))"
    using at_input [THEN conjunct1]
    by (simp add: CALL_CHECKED_def CallIf_def HasPreCall_def IsErrnoZeroReturnCheckPolicy_def
          returns_const_def)
  have all_return: "fst (CallGuard_calls ?R DefaultErrorPolicy ?g [(), (), ()] (\<lparr>errno = 5\<rparr>, []))
      = Inr [0, 0, 0]"
    by (simp add: CallGuard_call_def CALL_CHECKED_def CallIf_def HasPreCall_def
          IsErrnoZeroReturnCheckPolicy_def returns_const_def)
  from at_input obtain k where
    "calls_only (snd (snd (CallGuard_calls ?R DefaultErrorPolicy ?g [(), (), ()] (\<lparr>errno = 5\<rparr>, []))))
       = calls_only (snd (\<lparr>errno = 5\<rparr>, [] :: int event list)) @ concat (replicate k [PreCall, Call])"
    and "\<forall>rvs. fst (CallGuard_calls ?R DefaultErrorPolicy ?g [(), (), ()] (\<lparr>errno = 5\<rparr>, [])) = Inr rvs
           \<longrightarrow> k = length [(), (), ()]"
    by blast
  with all_return have thrice:
    "calls_only (snd (snd (CallGuard_calls ?R DefaultErrorPolicy ?g [(), (), ()] (\<lparr>errno = 5\<rparr>, []))))
       = [PreCall, Call, PreCall, Call, PreCall, Call]"
    by (simp add: eval_nat_numeral)
  from hook once thrice show ?thesis
    by (intro conjI)
qed

text \<open>
  Claim C5 as stated fails for the \<open>CallGuard\<close> of \<open>checkcall.h\<close>: with the policy
  \<open>IsErrnoZeroReturnCheckPolicy\<close>, which has a hook, a stale \<open>errno\<close> of 5 and a callable
  that returns 0 and leaves \<open>errno\<close> alone, \<open>cwrap::error::CallGuard\<close> runs no hook and
  throws, where \<open>cwrap::CallGuard\<close> runs the hook and returns 0. (\<open>format_d\<close> stands in
  for \<open>strerror\<close>.)
\<close>

theorem preCall_hook_counterexample:
  "HasPreCall (IsErrnoZeroReturnCheckPolicy :: (int, unit) return_check_policy)
   \<and> error_CallGuard_call IsErrnoZeroReturnCheckPolicy (error_ErrnoErrorPolicy format_d)
        \<lparr>functor_member = returns_const 0\<rparr> () (\<lparr>errno = 5\<rparr>, [])
       = (Inl (runtime_error ''5''), (\<lparr>errno = 5\<rparr>, [Call, HandleError (0::int)]))
   \<and> CallGuard_call IsErrnoZeroReturnCheckPolicy (ErrnoErrorPolicy format_d)
        \<lparr>functor_member = returns_const 0\<rparr> () (\<lparr>errno = 5\<rparr>, [])
       = (Inr (0::int), (\<lparr>errno = 0\<rparr>, [PreCall, Call]))"
  by (simp add: HasPreCall_def IsErrnoZeroReturnCheckPolicy_def error_CallGuard_call_def
        error_ErrnoErrorPolicy_def ErrnoErrorPolicy_def returns_const_def CallGuard_call_def
        CALL_CHECKED_def CallIf_def format_d_def digits.simps)

section \<open>Properties of the resource guard\<close>

lemma Guard_destroy_inert: "inert g \<Longrightarrow> Guard_destroy g st = (None, st)"
  by (simp add: Guard_destroy_def)

lemma Guard_destroy_all_inert:
  "\<forall>g \<in> set gs. inert g \<Longrightarrow> Guard_destroy_all gs st = ([], st)"
  by (induction gs arbitrary: st) (simp_all add: Guard_destroy_inert)

lemma Guard_destroy_all_append:
  "Guard_destroy_all (xs @ ys) st =
     (case Guard_destroy_all xs st of
        (es, st') \<Rightarrow> (case Guard_destroy_all ys st' of (es', st'') \<Rightarrow> (es @ es', st'')))"
  by (induction xs arbitrary: st) (simp_all split: prod.splits)

lemma Guard_destroy_all_one_owner:
  assumes "\<forall>g \<in> set xs. inert g" and "\<forall>g \<in> set ys. inert g"
  shows "Guard_destroy_all (xs @ g # ys) st =
           (case Guard_destroy g st of
              (r, st') \<Rightarrow> ((case r of None \<Rightarrow> [] | Some e \<Rightarrow> [e]), st'))"
  using assms
  by (simp add: Guard_destroy_all_append Guard_destroy_all_inert split: prod.splits)

lemma move_chain_result:
  "move_chain n g = (srcs, final)
     \<Longrightarrow> final = g \<and> length srcs = n \<and> (\<forall>x \<in> set srcs. inert x)"
proof (induction n arbitrary: g srcs final)
  case 0
  then show ?case by simp
next
  case (Suc n)
  obtain srcs' final' where rest: "move_chain n g = (srcs', final')"
    by (cases "move_chain n g")
  from Suc.prems rest have "srcs = g\<lparr>inert := True\<rparr> # srcs'" and "final = final'"
    by (simp_all add: Guard_move_def)
  with Suc.IH [OF rest] show ?case by simp
qed

lemma Guard_destroy_Action:
  "\<not> inert g \<Longrightarrow> cleanup g = Action A \<Longrightarrow>
     Guard_destroy g (s, log)
       = (fst (A (guarded g) s), (snd (A (guarded g) s), log @ [Cleanup (guarded g)]))"
  by (simp add: Guard_destroy_def invoke_def split: prod.splits)

lemma Guard_destroy_log:
  "\<not> inert g \<Longrightarrow> snd (snd (Guard_destroy g (s, log))) = log @ [Cleanup (guarded g)]"
  by (simp add: Guard_destroy_def invoke_def split: prod.splits deleter.splits)

text \<open>
  Claim C1. A guard that holds the cleanup action \<open>A\<close> and has not been moved from,
  when destroyed, invokes \<open>A\<close> exactly once, on its guarded value: the log gains the one
  event \<open>Cleanup (guarded g)\<close> and the state is the one that a single run of \<open>A\<close> on that
  value leaves. After a move, destroying the source does nothing and destroying the new
  guard is that one invocation. The same holds along a chain of \<open>n\<close> moves: each of the
  \<open>n\<close> moved-from guards is inert, and destroying all \<open>n + 1\<close> guards, in the order of
  their creation or in the reverse order, invokes \<open>A\<close> once.
\<close>

theorem cleanup_exactly_once:
  assumes "\<not> inert g" and "cleanup g = Action A"
  shows "Guard_destroy g (s, log)
           = (fst (A (guarded g) s), (snd (A (guarded g) s), log @ [Cleanup (guarded g)]))
       \<and> Guard_destroy (snd (Guard_move g)) (s, log) = (None, (s, log))
       \<and> Guard_destroy (fst (Guard_move g)) (s, log)
           = (fst (A (guarded g) s), (snd (A (guarded g) s), log @ [Cleanup (guarded g)]))
       \<and> (\<forall>x \<in> set (fst (move_chain n g)). Guard_destroy x (s, log) = (None, (s, log)))
       \<and> length (fst (move_chain n g)) = n
       \<and> Guard_destroy (snd (move_chain n g)) (s, log)
           = (fst (A (guarded g) s), (snd (A (guarded g) s), log @ [Cleanup (guarded g)]))
       \<and> snd (Guard_destroy_all (rev (fst (move_chain n g) @ [snd (move_chain n g)])) (s, log))
           = (snd (A (guarded g) s), log @ [Cleanup (guarded g)])
       \<and> snd (Guard_destroy_all (fst (move_chain n g) @ [snd (move_chain n g)]) (s, log))
           = (snd (A (guarded g) s), log @ [Cleanup (guarded g)])"
proof -
  obtain srcs final where chain: "move_chain n g = (srcs, final)"
    by (cases "move_chain n g")
  have inert_srcs: "\<forall>x \<in> set srcs. inert x"
    using move_chain_result [OF chain] by simp
  have final: "final = g"
    using move_chain_result [OF chain] by simp
  have one: "Guard_destroy g (s, log)
      = (fst (A (guarded g) s), (snd (A (guarded g) s), log @ [Cleanup (guarded g)]))"
    using assms by (rule Guard_destroy_Action)
  have moved: "Guard_destroy (snd (Guard_move g)) (s, log) = (None, (s, log))"
    by (simp add: Guard_move_def Guard_destroy_inert)
  have target: "fst (Guard_move g) = g"
    by (simp add: Guard_move_def)
  have none: "\<forall>x \<in> set srcs. Guard_destroy x (s, log) = (None, (s, log))"
    using inert_srcs by (simp add: Guard_destroy_inert)
  have backwards: "snd (Guard_destroy_all (rev (srcs @ [g])) (s, log))
      = (snd (A (guarded g) s), log @ [Cleanup (guarded g)])"
    using Guard_destroy_all_one_owner [of "[]" "rev srcs" g "(s, log)"] inert_srcs one
    by simp
  have forwards: "snd (Guard_destroy_all (srcs @ [g]) (s, log))
      = (snd (A (guarded g) s), log @ [Cleanup (guarded g)])"
    using Guard_destroy_all_one_owner [of srcs "[]" g "(s, log)"] inert_srcs one
    by simp
  show ?thesis
    using one moved none backwards forwards move_chain_result [OF chain]
    by (simp add: chain final target)
qed

theorem cleanup_exactly_once_witness:
  "\<not> inert (Guard_new CustomDeleter (7::nat))
   \<and> cleanup (Guard_new CustomDeleter (7::nat)) = Action release_resources
   \<and> Guard_destroy (Guard_new CustomDeleter (7::nat))
        (\<lparr>releaseResourcesFunc = 0, freeResourcesFunc = 0\<rparr>, [])
     = (None, (\<lparr>releaseResourcesFunc = 1, freeResourcesFunc = 0\<rparr>, [Cleanup 7]))
   \<and> length (fst (move_chain 3 (Guard_new CustomDeleter (7::nat)))) = 3
   \<and> snd (Guard_destroy_all
        (rev (fst (move_chain 3 (Guard_new CustomDeleter (7::nat)))
              @ [snd (move_chain 3 (Guard_new CustomDeleter 7))]))
        (\<lparr>releaseResourcesFunc = 0, freeResourcesFunc = 0\<rparr>, []))
     = (\<lparr>releaseResourcesFunc = 1, freeResourcesFunc = 0\<rparr>, [Cleanup 7])"
proof -
  let ?g = "Guard_new CustomDeleter (7::nat)"
  have owning: "\<not> inert ?g"
    by (simp add: Guard_new_def)
  have action: "cleanup ?g = Action release_resources"
    by (simp add: Guard_new_def CustomDeleter_def)
  have val: "guarded ?g = 7"
    by (simp add: Guard_new_def)
  note at_input = cleanup_exactly_once
         [where g = ?g and A = release_resources and n = 3
            and s = "\<lparr>releaseResourcesFunc = 0, freeResourcesFunc = 0\<rparr>" and log = "[]",
          OF owning action]
  have destroyed: "Guard_destroy ?g (\<lparr>releaseResourcesFunc = 0, freeResourcesFunc = 0\<rparr>, [])
      = (None, (\<lparr>releaseResourcesFunc = 1, freeResourcesFunc = 0\<rparr>, [Cleanup 7]))"
    using at_input [THEN conjunct1] by (simp add: val release_resources_def)
  have len: "length (fst (move_chain 3 ?g)) = 3"
    using at_input by blast
  have chain: "snd (Guard_destroy_all (rev (fst (move_chain 3 ?g) @ [snd (move_chain 3 ?g)]))
        (\<lparr>releaseResourcesFunc = 0, freeResourcesFunc = 0\<rparr>, []))
      = (snd (release_resources (guarded ?g) \<lparr>releaseResourcesFunc = 0, freeResourcesFunc = 0\<rparr>),
         [] @ [Cleanup (guarded ?g)])"
    using at_input by blast
  then have chain': "snd (Guard_destroy_all (rev (fst (move_chain 3 ?g) @ [snd (move_chain 3 ?g)]))
        (\<lparr>releaseResourcesFunc = 0, freeResourcesFunc = 0\<rparr>, []))
      = (\<lparr>releaseResourcesFunc = 1, freeResourcesFunc = 0\<rparr>, [Cleanup 7])"
    by (simp add: val release_resources_def)
  from owning action destroyed len chain' show ?thesis
    by (intro conjI)
qed

text \<open>
  Claim C4. A guard constructed with the default, empty cleanup action raises
  \<open>bad_function_call\<close> when it is destroyed: the destructor does not return normally and
  the state is untouched. The same holds for the guard at the end of any chain of moves
  that starts from it, and for any guard that holds the empty action and has not been
  moved from.
\<close>

theorem empty_cleanup_raises:
  "Guard_destroy (Guard_new EmptyFunction (v::'v)) (s::'s, log)
     = (Some bad_function_call, (s, log @ [Cleanup v]))
 \<and> Guard_destroy (snd (move_chain n (Guard_new EmptyFunction v))) (s, log)
     = (Some bad_function_call, (s, log @ [Cleanup v]))
 \<and> (\<not> inert g \<and> cleanup g = EmptyFunction \<longrightarrow>
      Guard_destroy g (s, log) = (Some bad_function_call, (s, log @ [Cleanup (guarded g)])))"
proof -
  let ?g0 = "Guard_new EmptyFunction v :: ('v, 's) guard"
  obtain srcs final where chain: "move_chain n ?g0 = (srcs, final)"
    by (cases "move_chain n ?g0")
  have final: "snd (move_chain n ?g0) = ?g0"
    using move_chain_result [OF chain] by (simp add: chain)
  show ?thesis
    by (simp add: final) (simp add: Guard_destroy_def Guard_new_def invoke_def)
qed

theorem empty_cleanup_raises_witness:
  "\<not> inert (Guard_new EmptyFunction (7::nat) :: (nat, MockAPI) guard)
   \<and> cleanup (Guard_new EmptyFunction (7::nat)) = (EmptyFunction :: (nat, MockAPI) deleter)
   \<and> Guard_destroy (Guard_new EmptyFunction (7::nat))
        (\<lparr>releaseResourcesFunc = 0, freeResourcesFunc = 0\<rparr>, [])
     = (Some bad_function_call, (\<lparr>releaseResourcesFunc = 0, freeResourcesFunc = 0\<rparr>, [Cleanup 7]))"
proof -
  let ?g = "Guard_new EmptyFunction (7::nat) :: (nat, MockAPI) guard"
  have owning: "\<not> inert ?g" and empty: "cleanup ?g = EmptyFunction" and val: "guarded ?g = 7"
    by (simp_all add: Guard_new_def)
  note at_input = empty_cleanup_raises
         [where g = ?g and v = "7::nat" and n = 0
            and s = "\<lparr>releaseResourcesFunc = 0, freeResourcesFunc = 0\<rparr>" and log = "[]"]
  from at_input owning empty
  have "Guard_destroy ?g (\<lparr>releaseResourcesFunc = 0, freeResourcesFunc = 0\<rparr>, [])
      = (Some bad_function_call,
         (\<lparr>releaseResourcesFunc = 0, freeResourcesFunc = 0\<rparr>, [] @ [Cleanup (guarded ?g)]))"
    by blast
  then have "Guard_destroy ?g (\<lparr>releaseResourcesFunc = 0, freeResourcesFunc = 0\<rparr>, [])
      = (Some bad_function_call, (\<lparr>releaseResourcesFunc = 0, freeResourcesFunc = 0\<rparr>, [Cleanup 7]))"
    by (simp add: val)
  with owning empty show ?thesis
    by (intro conjI)
qed

text \<open>
  Claim C7. Move-assigning to a guard that holds a binding invokes the cleanup action
  exactly once, on the value held so far: the log gains the one event
  \<open>Cleanup (guarded dst)\<close>, whatever the action does. When the action is \<open>A\<close> the state is
  the one a single run of \<open>A\<close> on the old value leaves, and when \<open>A\<close> returns normally
  the guard then takes over the binding of the source and the source is inert. The old
  value is released before that and not again: destroying the source and the assigned
  guard afterwards adds one event, for the new value.
\<close>

theorem move_assign_releases_previous_binding:
  assumes "\<not> inert dst"
  shows "snd (snd (Guard_move_assign dst src (s, log))) = log @ [Cleanup (guarded dst)]
       \<and> (cleanup dst = Action A \<longrightarrow>
            fst (snd (Guard_move_assign dst src (s, log))) = snd (A (guarded dst) s))
       \<and> (cleanup dst = Action A \<and> fst (A (guarded dst) s) = None \<longrightarrow>
            Guard_move_assign dst src (s, log)
              = (Inr (src, src\<lparr>inert := True\<rparr>),
                 (snd (A (guarded dst) s), log @ [Cleanup (guarded dst)])))
       \<and> (cleanup dst = Action A \<and> fst (A (guarded dst) s) = None \<and> \<not> inert src \<longrightarrow>
            snd (snd (Guard_destroy_all [src\<lparr>inert := True\<rparr>, src]
                        (snd (Guard_move_assign dst src (s, log)))))
              = log @ [Cleanup (guarded dst), Cleanup (guarded src)])"
proof -
  obtain r st' where released: "Guard_destroy dst (s, log) = (r, st')"
    by (cases "Guard_destroy dst (s, log)")
  have log': "snd st' = log @ [Cleanup (guarded dst)]"
    using Guard_destroy_log [OF assms, of s log] released by simp
  have first: "snd (snd (Guard_move_assign dst src (s, log))) = log @ [Cleanup (guarded dst)]"
    using released log' by (cases r) (simp_all add: Guard_move_assign_def)
  have second: "fst (snd (Guard_move_assign dst src (s, log))) = snd (A (guarded dst) s)"
    if "cleanup dst = Action A"
    using Guard_destroy_Action [OF assms that, of s log]
    by (cases "fst (A (guarded dst) s)") (simp_all add: Guard_move_assign_def)
  have third: "Guard_move_assign dst src (s, log)
      = (Inr (src, src\<lparr>inert := True\<rparr>), (snd (A (guarded dst) s), log @ [Cleanup (guarded dst)]))"
    if "cleanup dst = Action A" and "fst (A (guarded dst) s) = None"
    using Guard_destroy_Action [OF assms that(1), of s log] that(2)
    by (simp add: Guard_move_assign_def Guard_move_def)
  have fourth: "snd (snd (Guard_destroy_all [src\<lparr>inert := True\<rparr>, src]
                        (snd (Guard_move_assign dst src (s, log)))))
      = log @ [Cleanup (guarded dst), Cleanup (guarded src)]"
    if "cleanup dst = Action A" and "fst (A (guarded dst) s) = None" and "\<not> inert src"
  proof -
    let ?st = "(snd (A (guarded dst) s), log @ [Cleanup (guarded dst)])"
    obtain r2 st2 where last: "Guard_destroy src ?st = (r2, st2)"
      by (cases "Guard_destroy src ?st")
    have "snd st2 = log @ [Cleanup (guarded dst), Cleanup (guarded src)]"
      using Guard_destroy_log [OF that(3), of "snd (A (guarded dst) s)" "log @ [Cleanup (guarded dst)]"]
        last by simp
    then show ?thesis
      using third [OF that(1,2)] last by (simp add: Guard_destroy_inert)
  qed
  from first second third fourth show ?thesis
    by blast
qed

theorem move_assign_releases_previous_binding_witness:
  "\<not> inert (Guard_new CustomDeleter (4::nat))
   \<and> Guard_move_assign (Guard_new CustomDeleter (4::nat)) (Guard_new CustomDeleter 9)
        (\<lparr>releaseResourcesFunc = 0, freeResourcesFunc = 0\<rparr>, [])
     = (Inr (Guard_new CustomDeleter 9, (Guard_new CustomDeleter 9)\<lparr>inert := True\<rparr>),
        (\<lparr>releaseResourcesFunc = 1, freeResourcesFunc = 0\<rparr>, [Cleanup 4]))"
proof -
  let ?dst = "Guard_new CustomDeleter (4::nat)"
  let ?src = "Guard_new CustomDeleter (9::nat)"
  let ?s = "\<lparr>releaseResourcesFunc = 0, freeResourcesFunc = 0\<rparr>"
  have owning: "\<not> inert ?dst" and action: "cleanup ?dst = Action release_resources"
    and val: "guarded ?dst = 4"
    by (simp_all add: Guard_new_def CustomDeleter_def)
  have normal: "fst (release_resources (guarded ?dst) ?s) = None"
    by (simp add: release_resources_def)
  note at_input = move_assign_releases_previous_binding
         [where dst = ?dst and src = ?src and s = ?s and log = "[]" and A = release_resources,
          OF owning]
  from at_input action normal
  have "Guard_move_assign ?dst ?src (?s, [])
      = (Inr (?src, ?src\<lparr>inert := True\<rparr>),
         (snd (release_resources (guarded ?dst) ?s), [] @ [Cleanup (guarded ?dst)]))"
    by blast
  then have "Guard_move_assign ?dst ?src (?s, [])
      = (Inr (?src, ?src\<lparr>inert := True\<rparr>),
         (\<lparr>releaseResourcesFunc = 1, freeResourcesFunc = 0\<rparr>, [Cleanup 4]))"
    by (simp add: val release_resources_def)
  with owning show ?thesis
    by (intro conjI)
qed

text \<open>
  Claim C8. The destructor of a guard is declared non-throwing exactly when the call of
  its cleanup action is a non-throwing expression; with the default free policy, whose
  call may throw when it is empty, the destructor is not declared non-throwing. The five
  \<open>static_assert\<close>s of \<open>tests/guard_test.cpp\<close> hold under every language standard.
\<close>

theorem destructor_noexcept_follows_cleanup_action:
  "destructor_noexcept cplusplus T = invocation_noexcept cplusplus T
 \<and> \<not> destructor_noexcept cplusplus StdFunction
 \<and> guard_test_static_asserts cplusplus"
  by (simp add: destructor_noexcept_def invocation_noexcept_def guard_test_static_asserts_def)

theorem destructor_noexcept_follows_cleanup_action_witness:
  "guard_test_static_asserts 201402
 \<and> guard_test_static_asserts 201703
 \<and> destructor_noexcept 201703 (FunctionPointer True)
 \<and> \<not> destructor_noexcept 201402 (FunctionPointer True)
 \<and> destructor_noexcept 201402 (Functor True)
 \<and> \<not> destructor_noexcept 201703 StdFunction"
  using destructor_noexcept_follows_cleanup_action [of 201402 "FunctionPointer True"]
        destructor_noexcept_follows_cleanup_action [of 201703 "FunctionPointer True"]
        destructor_noexcept_follows_cleanup_action [of 201402 "Functor True"]
  by (simp add: invocation_noexcept_def)

section \<open>The tests of the guard\<close>

text \<open>The assertions of four tests of \<open>tests/guard_test.cpp\<close>, on the guard above.\<close>

lemma testFunctionPointerAsFreeFunc_passes:
  "testFunctionPointerAsFreeFunc v
     = (None, (\<lparr>releaseResourcesFunc = 0, freeResourcesFunc = 1\<rparr>, [Cleanup v]))"
  by (simp add: testFunctionPointerAsFreeFunc_def Guard_new_def Guard_destroy_def invoke_def
        free_resources_def)

lemma testThatDefaulFreePolicyThrowsIfEmpty_passes:
  "fst (testThatDefaulFreePolicyThrowsIfEmpty v) = Some bad_function_call"
  by (simp add: testThatDefaulFreePolicyThrowsIfEmpty_def Guard_new_def Guard_destroy_def
        invoke_def)

lemma testMoveConstruction_passes:
  "testMoveConstruction v
     = ([], (\<lparr>releaseResourcesFunc = 1, freeResourcesFunc = 0\<rparr>, [Cleanup v]))"
  by (simp add: testMoveConstruction_def Guard_new_def Guard_move_def Guard_destroy_def
        invoke_def CustomDeleter_def release_resources_def)

lemma testMoveAssignment_passes:
  "testMoveAssignment v w
     = (Inr [], (\<lparr>releaseResourcesFunc = 2, freeResourcesFunc = 0\<rparr>, [Cleanup v, Cleanup w]))"
  by (simp add: testMoveAssignment_def Guard_move_assign_def Guard_new_def Guard_move_def
        Guard_destroy_def invoke_def CustomDeleter_def release_resources_def)

end
